theory Spec2Isabelle
  imports Complex_Main "HOL-Library.Word"
begin

section \<open>The LocationEditor component\<close>

text \<open>
  The React component \<^verbatim>\<open>LocationEditor\<close> is the part of the location module whose code is
  in the repository. Its handlers are asynchronous functions over the component's state;
  they are modelled as functions from the state before the call to the state after the
  returned promise has settled. The answer of the network to a \<^verbatim>\<open>fetch\<close> is a parameter
  of each handler, and every \<^verbatim>\<open>fetch\<close> that a handler issues is appended to the field
  \<open>requests\<close> of the state, so that "no network call" is a statement about that field.

  JavaScript strings are sequences of UTF-16 code units; \<^verbatim>\<open>length\<close> counts code units.
  Numbers are only copied by the handlers, never computed with, and are read as reals.
\<close>

type_synonym jsstring = "16 word list"

definition js :: "string \<Rightarrow> jsstring" where
  "js s = map of_char s"

text \<open>The code units removed by \<^verbatim>\<open>String.prototype.trim\<close>: WhiteSpace and LineTerminator.\<close>

definition isWhiteSpace :: "16 word \<Rightarrow> bool" where
  "isWhiteSpace c \<longleftrightarrow>
     c = 0x0009 \<or> c = 0x000A \<or> c = 0x000B \<or> c = 0x000C \<or> c = 0x000D \<or> c = 0x0020 \<or>
     c = 0x00A0 \<or> c = 0x1680 \<or> (0x2000 \<le> c \<and> c \<le> 0x200A) \<or> c = 0x2028 \<or>
     c = 0x2029 \<or> c = 0x202F \<or> c = 0x205F \<or> c = 0x3000 \<or> c = 0xFEFF"

definition trim :: "jsstring \<Rightarrow> jsstring" where
  "trim s = rev (dropWhile isWhiteSpace (rev (dropWhile isWhiteSpace s)))"

text \<open>\<^verbatim>\<open>interface PlaceCandidate\<close>; the fields carry the prefix \<open>c_\<close>.\<close>

record PlaceCandidate =
  c_label :: jsstring
  c_lat :: real
  c_lon :: real
  c_place_name :: jsstring
  c_city :: jsstring
  c_admin :: jsstring
  c_country :: jsstring
  c_country_code :: jsstring
  c_provider :: jsstring
  c_provider_place_id :: jsstring
  c_confidence :: real

text \<open>\<^verbatim>\<open>interface LocationData\<close>; a field marked \<^verbatim>\<open>?\<close> is an option. It has no confidence.\<close>

record LocationData =
  lat :: real
  lon :: real
  place_name :: "jsstring option"
  city :: "jsstring option"
  admin :: "jsstring option"
  country :: "jsstring option"
  country_code :: "jsstring option"

text \<open>The requests the component sends (all are POST with a JSON body).\<close>

datatype request =
    SearchRequest jsstring      \<comment> \<open>\<^verbatim>\<open>/api/geocode/search/\<close> with \<^verbatim>\<open>{ query }\<close>\<close>
  | ReverseRequest real real    \<comment> \<open>\<^verbatim>\<open>/api/geocode/reverse/\<close> with \<^verbatim>\<open>{ lat, lon }\<close>\<close>

text \<open>
  What \<^verbatim>\<open>await fetch(...)\<close> and \<^verbatim>\<open>await response.json()\<close> can give: the fetch promise
  rejects, or it resolves to a response with its \<^verbatim>\<open>ok\<close> flag and a body; reading the body
  rejects, or gives \<^verbatim>\<open>null\<close>, or gives a value of the expected shape.
\<close>

datatype 'a body = Unreadable | Null | Json 'a

datatype 'a response = Rejected | Response bool "'a body"

datatype js_error = FetchRejected | JsonRejected | TypeError | Error jsstring

record EditorState =
  searchQuery :: jsstring
  searchResults :: "PlaceCandidate list"
  showResults :: bool
  selectedLocation :: "LocationData option"
  mapCenter :: "real \<times> real"
  isLoading :: bool
  error :: "jsstring option"
  success :: "jsstring option"
  requests :: "request list"

text \<open>
  The state of a freshly mounted component with the given \<^verbatim>\<open>initialLocation\<close>, after
  the effect that initialises the map centre has run: the centre is the initial
  location when its \<^verbatim>\<open>lat\<close> and \<^verbatim>\<open>lon\<close> are both truthy (not zero), and New York
  otherwise.
\<close>

definition mounted :: "LocationData option \<Rightarrow> EditorState" where
  "mounted initialLocation =
     \<lparr>searchQuery = [], searchResults = [], showResults = False,
      selectedLocation = initialLocation,
      mapCenter = (case initialLocation of
                     Some l \<Rightarrow> if lat l \<noteq> 0 \<and> lon l \<noteq> 0 then (lat l, lon l)
                               else (40.7128, -74.0060)
                   | None \<Rightarrow> (40.7128, -74.0060)),
      isLoading = False, error = None, success = None, requests = []\<rparr>"

subsection \<open>performSearch\<close>

text \<open>
  The body of the \<^verbatim>\<open>try\<close> block: the state it leaves, and the exception it throws if any.
  Reading \<^verbatim>\<open>results.length\<close> of \<^verbatim>\<open>null\<close> is a TypeError.
\<close>

definition performSearch_try ::
  "(jsstring \<Rightarrow> PlaceCandidate list response) \<Rightarrow> jsstring \<Rightarrow> EditorState
     \<Rightarrow> js_error option \<times> EditorState" where
  "performSearch_try fetch query st =
     (let st1 = st\<lparr>isLoading := True, error := None,
                    requests := requests st @ [SearchRequest (trim query)]\<rparr>
      in case fetch (trim query) of
           Rejected \<Rightarrow> (Some FetchRejected, st1)
         | Response ok b \<Rightarrow>
             if \<not> ok then (Some (Error (js ''Search failed'')), st1)
             else (case b of
                     Unreadable \<Rightarrow> (Some JsonRejected, st1)
                   | Null \<Rightarrow> (Some TypeError, st1)
                   | Json results \<Rightarrow>
                       (None, st1\<lparr>searchResults := results, showResults := (0 < length results)\<rparr>)))"

definition performSearch ::
  "(jsstring \<Rightarrow> PlaceCandidate list response) \<Rightarrow> jsstring \<Rightarrow> EditorState \<Rightarrow> EditorState" where
  "performSearch fetch query st =
     (if trim query = [] \<or> length query < 2
      then st\<lparr>searchResults := [], showResults := False\<rparr>
      else (case performSearch_try fetch query st of
              (None, st') \<Rightarrow> st'\<lparr>isLoading := False\<rparr>
            | (Some err, st') \<Rightarrow>
                st'\<lparr>error := Some (js ''Search failed. Please try again.''),
                    searchResults := [], showResults := False, isLoading := False\<rparr>))"

subsection \<open>handleMarkerDrag\<close>

text \<open>
  The object built from the reverse-geocoding result, and the object of the \<^verbatim>\<open>catch\<close>
  block: \<^verbatim>\<open>prev ? { ...prev, lat, lon } : { lat, lon }\<close>.
\<close>

definition fromCandidate :: "PlaceCandidate \<Rightarrow> LocationData" where
  "fromCandidate result =
     \<lparr>lat = c_lat result, lon = c_lon result, place_name = Some (c_place_name result),
      city = Some (c_city result), admin = Some (c_admin result),
      country = Some (c_country result), country_code = Some (c_country_code result)\<rparr>"

definition keepCoordinates :: "LocationData option \<Rightarrow> real \<Rightarrow> real \<Rightarrow> LocationData" where
  "keepCoordinates prev la lo =
     (case prev of
        Some p \<Rightarrow> p\<lparr>lat := la, lon := lo\<rparr>
      | None \<Rightarrow> \<lparr>lat = la, lon = lo, place_name = None, city = None, admin = None,
                 country = None, country_code = None\<rparr>)"

text \<open>The \<^verbatim>\<open>try\<close> block. A response that is not ok falls through the \<^verbatim>\<open>if\<close> without throwing.\<close>

definition handleMarkerDrag_try ::
  "(real \<Rightarrow> real \<Rightarrow> PlaceCandidate response) \<Rightarrow> real \<Rightarrow> real \<Rightarrow> EditorState
     \<Rightarrow> js_error option \<times> EditorState" where
  "handleMarkerDrag_try fetch la lo st =
     (let st1 = st\<lparr>requests := requests st @ [ReverseRequest la lo]\<rparr>
      in case fetch la lo of
           Rejected \<Rightarrow> (Some FetchRejected, st1)
         | Response ok b \<Rightarrow>
             if ok then
               (case b of
                  Unreadable \<Rightarrow> (Some JsonRejected, st1)
                | Null \<Rightarrow> (Some TypeError, st1)
                | Json result \<Rightarrow> (None, st1\<lparr>selectedLocation := Some (fromCandidate result)\<rparr>))
             else (None, st1))"

definition handleMarkerDrag ::
  "(real \<Rightarrow> real \<Rightarrow> PlaceCandidate response) \<Rightarrow> real \<Rightarrow> real \<Rightarrow> EditorState \<Rightarrow> EditorState" where
  "handleMarkerDrag fetch la lo st =
     (case handleMarkerDrag_try fetch la lo st of
        (None, st') \<Rightarrow> st'
      | (Some err, st') \<Rightarrow>
          st'\<lparr>selectedLocation := Some (keepCoordinates (selectedLocation st') la lo)\<rparr>)"

section \<open>Confidence scoring\<close>

subsection \<open>Python floats\<close>

text \<open>
  A Python float is an IEEE 754 binary64 number. A finite one is \<open>mant * 2 ^ expo\<close>;
  a nonzero one is kept with a mantissa of exactly 53 bits. Addition is exact addition
  followed by rounding to the nearest such number, ties to the even mantissa. Infinities,
  NaN, overflow and subnormal numbers are outside the model: the scorer adds numbers
  between 0.1 and 1.
\<close>

record double =
  mant :: int
  expo :: int

definition valof :: "double \<Rightarrow> real" where
  "valof d = (if 0 \<le> expo d then of_int (mant d) * 2 ^ nat (expo d)
              else of_int (mant d) / 2 ^ nat (- expo d))"

function bit_length :: "int \<Rightarrow> int" where
  "bit_length n = (if n \<le> 0 then 0 else 1 + bit_length (n div 2))"
  by pat_completeness auto
termination
  by (relation "measure nat") auto

declare bit_length.simps [simp del]

text \<open>\<open>n / 2 ^ s\<close> rounded to the nearest integer, ties to even, for \<open>n \<ge> 0\<close>.\<close>

definition round_half_even :: "int \<Rightarrow> int \<Rightarrow> int" where
  "round_half_even n s =
     (if s \<le> 0 then n
      else (let q = n div 2 ^ nat s; r = n mod 2 ^ nat s; h = 2 ^ nat (s - 1)
            in if h < r \<or> (r = h \<and> odd q) then q + 1 else q))"

text \<open>The double nearest to \<open>m * 2 ^ e\<close>.\<close>

definition fl :: "int \<Rightarrow> int \<Rightarrow> double" where
  "fl m e =
     (let b = bit_length \<bar>m\<bar>
      in if m = 0 then \<lparr>mant = 0, expo = 0\<rparr>
         else if b \<le> 53 then \<lparr>mant = m * 2 ^ nat (53 - b), expo = e - (53 - b)\<rparr>
         else (let s = b - 53; q = round_half_even \<bar>m\<bar> s
               in if q = 2 ^ 53 then \<lparr>mant = sgn m * 2 ^ 52, expo = e + s + 1\<rparr>
                  else \<lparr>mant = sgn m * q, expo = e + s\<rparr>))"

definition fadd :: "double \<Rightarrow> double \<Rightarrow> double" where
  "fadd a b =
     (let e = min (expo a) (expo b)
      in fl (mant a * 2 ^ nat (expo a - e) + mant b * 2 ^ nat (expo b - e)) e)"

definition fless :: "double \<Rightarrow> double \<Rightarrow> bool" where
  "fless a b =
     (let e = min (expo a) (expo b)
      in mant a * 2 ^ nat (expo a - e) < mant b * 2 ^ nat (expo b - e))"

text \<open>Python's \<^verbatim>\<open>min(a, b)\<close>: \<open>b\<close> if it is smaller, \<open>a\<close> otherwise.\<close>

definition fmin :: "double \<Rightarrow> double \<Rightarrow> double" where
  "fmin a b = (if fless b a then b else a)"

text \<open>The doubles that the literals \<^verbatim>\<open>0.7\<close>, \<^verbatim>\<open>0.1\<close> and \<^verbatim>\<open>0.95\<close> denote
  (\<^verbatim>\<open>0x1.6666666666666p-1\<close>, \<^verbatim>\<open>0x1.999999999999ap-4\<close>, \<^verbatim>\<open>0x1.e666666666666p-1\<close>).\<close>

definition lit_0_7 :: double where
  "lit_0_7 = \<lparr>mant = 6305039478318694, expo = -53\<rparr>"

definition lit_0_1 :: double where
  "lit_0_1 = \<lparr>mant = 7205759403792794, expo = -56\<rparr>"

definition lit_0_95 :: double where
  "lit_0_95 = \<lparr>mant = 8556839292003942, expo = -53\<rparr>"

subsection \<open>The scorer\<close>

text \<open>
  The scorer is the function \<^verbatim>\<open>calculate_custom_confidence\<close> of the location module's
  README. Its argument is a provider response decoded from JSON: a Python dictionary,
  modelled as an association list with distinct keys. \<^verbatim>\<open>d.get(k)\<close> is defined on
  dictionaries only and raises AttributeError on any other value; an \<^verbatim>\<open>if\<close> tests
  Python's truth value.
\<close>

datatype pyval =
    PNone | PBool bool | PInt int | PFloat double | PStr string
  | PList "pyval list" | PDict "(string \<times> pyval) list"

datatype py_error = AttributeError

fun truthy :: "pyval \<Rightarrow> bool" where
  "truthy PNone = False"
| "truthy (PBool b) = b"
| "truthy (PInt n) = (n \<noteq> 0)"
| "truthy (PFloat x) = (mant x \<noteq> 0)"
| "truthy (PStr s) = (s \<noteq> [])"
| "truthy (PList xs) = (xs \<noteq> [])"
| "truthy (PDict kvs) = (kvs \<noteq> [])"

definition dict_get :: "(string \<times> pyval) list \<Rightarrow> string \<Rightarrow> pyval \<Rightarrow> pyval" where
  "dict_get d k dflt = (case map_of d k of Some v \<Rightarrow> v | None \<Rightarrow> dflt)"

definition py_get :: "pyval \<Rightarrow> string \<Rightarrow> py_error + pyval" where
  "py_get v k = (case v of PDict d \<Rightarrow> Inr (dict_get d k PNone) | _ \<Rightarrow> Inl AttributeError)"

definition calculate_custom_confidence :: "(string \<times> pyval) list \<Rightarrow> py_error + double" where
  "calculate_custom_confidence data =
     (let base_confidence = lit_0_7 in
      (case py_get (dict_get data ''address'' (PDict [])) ''postcode'' of
         Inl e \<Rightarrow> Inl e
       | Inr postcode \<Rightarrow>
           (let base_confidence =
                  (if truthy postcode then fadd base_confidence lit_0_1 else base_confidence) in
            (case py_get (dict_get data ''address'' (PDict [])) ''house_number'' of
               Inl e \<Rightarrow> Inl e
             | Inr house_number \<Rightarrow>
                 (let base_confidence =
                        (if truthy house_number then fadd base_confidence lit_0_1
                         else base_confidence)
                  in Inr (fmin lit_0_95 base_confidence))))))"

text \<open>
  The scorer as the specification words it, in exact decimals, for comparison with the
  function above: base 0.70, +0.10 for a postal code, +0.10 for a house number, +0.05
  for a named point of interest, capped at 0.95.
\<close>

definition specified_confidence :: "bool \<Rightarrow> bool \<Rightarrow> bool \<Rightarrow> real" where
  "specified_confidence postal_code house_number point_of_interest =
     min 0.95 (0.70 + (if postal_code then 0.10 else 0) + (if house_number then 0.10 else 0)
                    + (if point_of_interest then 0.05 else 0))"

text \<open>A provider response for a named attraction without postal code or house number.\<close>

definition attraction :: "(string \<times> pyval) list" where
  "attraction =
     [(''class'', PStr ''tourism''), (''type'', PStr ''attraction''),
      (''name'', PStr ''Kennedy Center''),
      (''address'', PDict [(''city'', PStr ''Washington''), (''country_code'', PStr ''us'')])]"

section \<open>The location resolution service\<close>

text \<open>
  Of the server side of the module (resolver, cache, store) the README declares the
  model \<^verbatim>\<open>StoryPlace\<close>, the provider interface and the configuration. The definitions
  of this section are written from the specification.
  Times are seconds; coordinates and confidences are read as reals.
\<close>

text \<open>Modelled from the spec: the error taxonomy of the service (its code is missing
  from the sources).\<close>

datatype geo_error = InvalidInput | RateLimitTimeout | ProviderUnavailable

text \<open>Modelled from the spec: the bounds invariant of coordinates (the server's input
  validation is missing from the sources; the README documents the ranges and the
  validators of \<^verbatim>\<open>StoryPlace\<close> repeat them).\<close>

definition in_bounds :: "real \<Rightarrow> real \<Rightarrow> bool" where
  "in_bounds la lo \<longleftrightarrow> -90 \<le> la \<and> la \<le> 90 \<and> -180 \<le> lo \<and> lo \<le> 180"

subsection \<open>ResultCache\<close>

text \<open>Modelled from the spec: a cache entry (the ResultCache is missing from the
  sources): what was stored, and when.\<close>

record 'v CacheEntry =
  payload :: 'v
  insertedAt :: nat

type_synonym ('k, 'v) ResultCache = "'k \<rightharpoonup> 'v CacheEntry"

text \<open>Modelled from the spec: the default of the configuration value \<^verbatim>\<open>CACHE_TTL\<close>
  (the README gives 86400 seconds; the cache itself is missing from the sources).\<close>

definition CACHE_TTL :: nat where
  "CACHE_TTL = 86400"

text \<open>Modelled from the spec: the cache lookup (the ResultCache is missing from the
  sources). An entry whose time-to-live has elapsed is treated as absent.\<close>

definition cache_get :: "nat \<Rightarrow> nat \<Rightarrow> ('k, 'v) ResultCache \<Rightarrow> 'k \<Rightarrow> 'v option" where
  "cache_get ttl now c k =
     (case c k of
        None \<Rightarrow> None
      | Some e \<Rightarrow> if insertedAt e + ttl \<le> now then None else Some (payload e))"

text \<open>Modelled from the spec: the cache insertion (the ResultCache is missing from the
  sources); the entry records the time of insertion.\<close>

definition cache_put :: "nat \<Rightarrow> ('k, 'v) ResultCache \<Rightarrow> 'k \<Rightarrow> 'v \<Rightarrow> ('k, 'v) ResultCache" where
  "cache_put now c k v = c(k \<mapsto> \<lparr>payload = v, insertedAt = now\<rparr>)"

text \<open>Modelled from the spec: the key of a reverse lookup, the coordinates rounded to
  5 decimal places (the key construction is missing from the sources).\<close>

definition reverse_key :: "real \<Rightarrow> real \<Rightarrow> int \<times> int" where
  "reverse_key la lo = (round (la * 100000), round (lo * 100000))"

subsection \<open>PlaceStore\<close>

text \<open>Modelled from the spec: the values of \<^verbatim>\<open>source\<close> (\<^verbatim>\<open>SOURCE_CHOICES\<close> is missing from
  the sources).\<close>

datatype source = search_selection | reverse_geocode | user_form | exif

text \<open>The model \<^verbatim>\<open>StoryPlace\<close> as the README declares it, the specification's
  ResolvedLocation; the fields carry the prefix \<open>r_\<close>, times are seconds.\<close>

record StoryPlace =
  r_story_id :: jsstring
  r_lat :: real
  r_lon :: real
  r_place_name :: jsstring
  r_city :: jsstring
  r_admin :: jsstring
  r_country :: jsstring
  r_country_code :: jsstring
  r_provider :: jsstring
  r_provider_place_id :: jsstring
  r_confidence :: real
  r_source :: source
  r_created_at :: nat
  r_updated_at :: nat

type_synonym PlaceStore = "jsstring \<rightharpoonup> StoryPlace"

text \<open>Modelled from the spec: the read operation of the PlaceStore (the store is
  missing from the sources; the README declares its model \<^verbatim>\<open>StoryPlace\<close>).\<close>

definition Get :: "PlaceStore \<Rightarrow> jsstring \<Rightarrow> StoryPlace option" where
  "Get store sid = store sid"

text \<open>Modelled from the spec: the record as the PlaceStore keeps it (the store is
  missing from the sources): \<^verbatim>\<open>created_at\<close> (the specification's createdAt) is set on
  the first write for an identifier and kept afterwards, \<^verbatim>\<open>updated_at\<close> is the time of
  the write.\<close>

definition stamped :: "nat \<Rightarrow> jsstring \<Rightarrow> StoryPlace \<Rightarrow> PlaceStore \<Rightarrow> StoryPlace" where
  "stamped now sid r store =
     r\<lparr>r_created_at := (case store sid of Some old \<Rightarrow> r_created_at old | None \<Rightarrow> now),
       r_updated_at := now\<rparr>"

text \<open>Modelled from the spec: the write operation of the PlaceStore (missing from the
  sources). One record per identifier; the write replaces the prior record except its
  \<^verbatim>\<open>created_at\<close>.\<close>

definition Put :: "nat \<Rightarrow> jsstring \<Rightarrow> StoryPlace \<Rightarrow> PlaceStore \<Rightarrow> PlaceStore" where
  "Put now sid r store = store(sid \<mapsto> stamped now sid r store)"

subsection \<open>LocationResolver\<close>

text \<open>Modelled from the spec: the answer of the provider to a call (the provider is
  missing from the sources): it is unavailable, or it answers.\<close>

datatype 'a provided = Unavailable | Answer 'a

text \<open>Modelled from the spec: the collaborators a resolver is constructed with (missing
  from the sources), taken as parameters. The provider answers a reverse lookup with at
  most one candidate, already scored (\<^verbatim>\<open>GeoProvider.reverse\<close> of the README). The rate
  limiter says whether a token is obtained in time for a call made at a given time.
  \<open>country_agrees code name\<close> is the comparison of a returned country code with a
  supplied country.\<close>

record Collaborators =
  provider_reverse :: "real \<Rightarrow> real \<Rightarrow> PlaceCandidate option provided"
  acquire_token :: "nat \<Rightarrow> bool"
  cache_ttl :: nat
  country_agrees :: "jsstring \<Rightarrow> jsstring \<Rightarrow> bool"

text \<open>Modelled from the spec: the state of the service (missing from the sources): the
  cache of reverse lookups, the PlaceStore, and the network calls made so far.\<close>

record ResolverState =
  cache :: "(int \<times> int, PlaceCandidate option) ResultCache"
  places :: PlaceStore
  provider_calls :: "(real \<times> real) list"

text \<open>Modelled from the spec: the degraded candidate that \<^verbatim>\<open>Reverse\<close> returns on provider
  failure (the resolver is missing from the sources): the raw coordinates, confidence
  0.0 and empty descriptive fields.\<close>

definition degraded :: "real \<Rightarrow> real \<Rightarrow> PlaceCandidate" where
  "degraded la lo =
     \<lparr>c_label = [], c_lat = la, c_lon = lo, c_place_name = [], c_city = [], c_admin = [],
      c_country = [], c_country_code = [], c_provider = [], c_provider_place_id = [],
      c_confidence = 0\<rparr>"

text \<open>Modelled from the spec: the operation \<^verbatim>\<open>Reverse\<close> of the LocationResolver (missing
  from the sources). Out-of-range input fails at once with InvalidInput; then the cache
  is consulted; on a miss a token is acquired and the provider called; an answer is
  cached, a failure is not and degrades to the raw coordinates.\<close>

definition Reverse ::
  "Collaborators \<Rightarrow> nat \<Rightarrow> real \<Rightarrow> real \<Rightarrow> ResolverState
     \<Rightarrow> (geo_error + PlaceCandidate option) \<times> ResolverState" where
  "Reverse env now la lo st =
     (if \<not> in_bounds la lo then (Inl InvalidInput, st)
      else (case cache_get (cache_ttl env) now (cache st) (reverse_key la lo) of
              Some hit \<Rightarrow> (Inr hit, st)
            | None \<Rightarrow>
                if \<not> acquire_token env now then (Inl RateLimitTimeout, st)
                else (case provider_reverse env la lo of
                        Unavailable \<Rightarrow>
                          (Inr (Some (degraded la lo)),
                           st\<lparr>provider_calls := provider_calls st @ [(la, lo)]\<rparr>)
                      | Answer r \<Rightarrow>
                          (Inr r,
                           st\<lparr>cache := cache_put now (cache st) (reverse_key la lo) r,
                              provider_calls := provider_calls st @ [(la, lo)]\<rparr>))))"

text \<open>Modelled from the spec: what a save call submits (the save endpoint is missing
  from the sources): a candidate selected from a search, the candidate of a map-drag
  reverse lookup, or the fields of the form as the component posts them. The functions
  \<open>in_lat\<close>, \<open>in_lon\<close> and so on below read the submitted values; an absent field of
  the form is the empty string, as the blank fields of \<^verbatim>\<open>StoryPlace\<close>, and a form edit
  has the default provider of \<^verbatim>\<open>StoryPlace\<close>.\<close>

datatype save_input =
    Selection PlaceCandidate
  | DragResult PlaceCandidate
  | FormEdit LocationData

definition submitted :: "jsstring option \<Rightarrow> jsstring" where
  "submitted field = (case field of Some s \<Rightarrow> s | None \<Rightarrow> [])"

fun in_lat :: "save_input \<Rightarrow> real" where
  "in_lat (Selection c) = c_lat c"
| "in_lat (DragResult c) = c_lat c"
| "in_lat (FormEdit f) = lat f"

fun in_lon :: "save_input \<Rightarrow> real" where
  "in_lon (Selection c) = c_lon c"
| "in_lon (DragResult c) = c_lon c"
| "in_lon (FormEdit f) = lon f"

fun in_place_name :: "save_input \<Rightarrow> jsstring" where
  "in_place_name (Selection c) = c_place_name c"
| "in_place_name (DragResult c) = c_place_name c"
| "in_place_name (FormEdit f) = submitted (place_name f)"

fun in_city :: "save_input \<Rightarrow> jsstring" where
  "in_city (Selection c) = c_city c"
| "in_city (DragResult c) = c_city c"
| "in_city (FormEdit f) = submitted (city f)"

fun in_admin :: "save_input \<Rightarrow> jsstring" where
  "in_admin (Selection c) = c_admin c"
| "in_admin (DragResult c) = c_admin c"
| "in_admin (FormEdit f) = submitted (admin f)"

fun in_country :: "save_input \<Rightarrow> jsstring" where
  "in_country (Selection c) = c_country c"
| "in_country (DragResult c) = c_country c"
| "in_country (FormEdit f) = submitted (country f)"

fun in_country_code :: "save_input \<Rightarrow> jsstring" where
  "in_country_code (Selection c) = c_country_code c"
| "in_country_code (DragResult c) = c_country_code c"
| "in_country_code (FormEdit f) = submitted (country_code f)"

fun in_provider :: "save_input \<Rightarrow> jsstring" where
  "in_provider (Selection c) = c_provider c"
| "in_provider (DragResult c) = c_provider c"
| "in_provider (FormEdit f) = js ''nominatim''"

fun in_provider_place_id :: "save_input \<Rightarrow> jsstring" where
  "in_provider_place_id (Selection c) = c_provider_place_id c"
| "in_provider_place_id (DragResult c) = c_provider_place_id c"
| "in_provider_place_id (FormEdit f) = []"

fun in_source :: "save_input \<Rightarrow> source" where
  "in_source (Selection c) = search_selection"
| "in_source (DragResult c) = reverse_geocode"
| "in_source (FormEdit f) = user_form"


text \<open>Modelled from the spec: the confidence of a save before cross-validation (the
  scoring of saves is missing from the sources): a candidate keeps the confidence it
  was scored with, a user-entered edit has 0.90.\<close>

fun scored_confidence :: "save_input \<Rightarrow> real" where
  "scored_confidence (Selection c) = c_confidence c"
| "scored_confidence (DragResult c) = c_confidence c"
| "scored_confidence (FormEdit f) = 0.90"

text \<open>Modelled from the spec: the fixed penalty of a cross-validation mismatch (the
  constant is missing from the sources).\<close>

definition MISMATCH_PENALTY :: real where
  "MISMATCH_PENALTY = 0.2"

text \<open>Modelled from the spec: the cross-validation of a save (missing from the
  sources). When a city and a country are present beside the coordinates, a reverse
  lookup is issued for the coordinates and the returned country code is compared with
  the supplied country; the result says whether they mismatch. Nothing in it blocks
  the save: a lookup that gives no candidate leaves the confidence as it is.\<close>

definition cross_validate ::
  "Collaborators \<Rightarrow> nat \<Rightarrow> save_input \<Rightarrow> ResolverState \<Rightarrow> bool \<times> ResolverState" where
  "cross_validate env now inp st =
     (if in_city inp \<noteq> [] \<and> in_country inp \<noteq> [] then
        (case Reverse env now (in_lat inp) (in_lon inp) st of
           (Inr (Some c), st1) \<Rightarrow> (\<not> country_agrees env (c_country_code c) (in_country inp), st1)
         | (Inr None, st1) \<Rightarrow> (False, st1)
         | (Inl e, st1) \<Rightarrow> (False, st1))
      else (False, st))"

text \<open>Modelled from the spec: the record a save writes (missing from the sources): the
  submitted values, the server-computed confidence and source.\<close>

definition resolved :: "jsstring \<Rightarrow> save_input \<Rightarrow> real \<Rightarrow> nat \<Rightarrow> StoryPlace" where
  "resolved sid inp conf now =
     \<lparr>r_story_id = sid, r_lat = in_lat inp, r_lon = in_lon inp,
      r_place_name = in_place_name inp, r_city = in_city inp, r_admin = in_admin inp,
      r_country = in_country inp, r_country_code = in_country_code inp,
      r_provider = in_provider inp, r_provider_place_id = in_provider_place_id inp,
      r_confidence = conf, r_source = in_source inp, r_created_at = now, r_updated_at = now\<rparr>"

text \<open>Modelled from the spec: the operation \<^verbatim>\<open>Save\<close> of the LocationResolver (missing
  from the sources). Coordinates out of range are InvalidInput; otherwise the save
  cross-validates, lowers the confidence by the penalty on a mismatch (the difference
  is not clamped), writes through the PlaceStore and returns the stored record.\<close>

definition Save ::
  "Collaborators \<Rightarrow> nat \<Rightarrow> jsstring \<Rightarrow> save_input \<Rightarrow> ResolverState
     \<Rightarrow> (geo_error + StoryPlace) \<times> ResolverState" where
  "Save env now sid inp st =
     (if \<not> in_bounds (in_lat inp) (in_lon inp) then (Inl InvalidInput, st)
      else (case cross_validate env now inp st of
              (mismatch, st1) \<Rightarrow>
                (let conf = (if mismatch then scored_confidence inp - MISMATCH_PENALTY
                             else scored_confidence inp);
                     r = resolved sid inp conf now
                 in (Inr (stamped now sid r (places st1)),
                     st1\<lparr>places := Put now sid r (places st1)\<rparr>))))"

section \<open>Sample inputs\<close>

text \<open>A server that refuses queries of more than 120 characters and finds nothing
  otherwise; a server that answers \<^verbatim>\<open>null\<close>, and a server that answers with an error
  status.\<close>

definition search_strict :: "jsstring \<Rightarrow> PlaceCandidate list response" where
  "search_strict q = (if 120 < length q then Response False Null else Response True (Json []))"

definition reverse_null :: "real \<Rightarrow> real \<Rightarrow> PlaceCandidate response" where
  "reverse_null la lo = Response True Null"

definition reverse_failing :: "real \<Rightarrow> real \<Rightarrow> PlaceCandidate response" where
  "reverse_failing la lo = Response False Null"

definition washington :: LocationData where
  "washington =
     \<lparr>lat = 38.8951, lon = -77.0540, place_name = Some (js ''Kennedy Center''),
      city = Some (js ''Washington''), admin = Some (js ''District of Columbia''),
      country = Some (js ''United States''), country_code = Some (js ''US'')\<rparr>"

text \<open>A provider that knows one place, and a form that puts it in another country.\<close>

definition paris :: PlaceCandidate where
  "paris =
     \<lparr>c_label = js ''Paris, France'', c_lat = 48.8566, c_lon = 2.3522,
      c_place_name = js ''Paris'', c_city = js ''Paris'', c_admin = js ''Ile-de-France'',
      c_country = js ''France'', c_country_code = js ''FR'', c_provider = js ''nominatim'',
      c_provider_place_id = js ''7444'', c_confidence = 0.8\<rparr>"

definition paris_provider :: "real \<Rightarrow> real \<Rightarrow> PlaceCandidate option provided" where
  "paris_provider la lo = Answer (Some paris)"

definition same_country :: "jsstring \<Rightarrow> jsstring \<Rightarrow> bool" where
  "same_country code name \<longleftrightarrow>
     (code = js ''FR'' \<and> name = js ''France'') \<or> (code = js ''US'' \<and> name = js ''United States'')"

definition paris_env :: Collaborators where
  "paris_env =
     \<lparr>provider_reverse = paris_provider, acquire_token = (\<lambda>now. True),
      cache_ttl = CACHE_TTL, country_agrees = same_country\<rparr>"

definition started :: ResolverState where
  "started = \<lparr>cache = Map.empty, places = Map.empty, provider_calls = []\<rparr>"




text \<open>A service in which the story already has a record, written at time 7.\<close>

definition earlier :: StoryPlace where
  "earlier =
     \<lparr>r_story_id = js ''story1'', r_lat = 38.8951, r_lon = -77.0540,
      r_place_name = js ''Kennedy Center'', r_city = js ''Washington'',
      r_admin = js ''District of Columbia'', r_country = js ''United States'',
      r_country_code = js ''US'', r_provider = js ''nominatim'',
      r_provider_place_id = js ''123456789'', r_confidence = 0.5,
      r_source = user_form, r_created_at = 7, r_updated_at = 7\<rparr>"

definition revisited :: ResolverState where
  "revisited =
     \<lparr>cache = Map.empty, places = [js ''story1'' \<mapsto> earlier], provider_calls = []\<rparr>"

section \<open>Properties of the LocationEditor component\<close>

lemma trim_eq_Nil_iff: "trim s = [] \<longleftrightarrow> (\<forall>c\<in>set s. isWhiteSpace c)"
proof -
  have "trim s = [] \<longleftrightarrow> (\<forall>c\<in>set (dropWhile isWhiteSpace s). isWhiteSpace c)"
    by (simp add: trim_def dropWhile_eq_Nil_conv)
  also have "\<dots> \<longleftrightarrow> dropWhile isWhiteSpace s = []"
  proof
    assume a: "\<forall>c\<in>set (dropWhile isWhiteSpace s). isWhiteSpace c"
    show "dropWhile isWhiteSpace s = []"
    proof (rule ccontr)
      assume n: "dropWhile isWhiteSpace s \<noteq> []"
      then have "\<not> isWhiteSpace (hd (dropWhile isWhiteSpace s))" by (rule hd_dropWhile)
      moreover have "hd (dropWhile isWhiteSpace s) \<in> set (dropWhile isWhiteSpace s)"
        using n by simp
      ultimately show False using a by blast
    qed
  next
    assume e: "dropWhile isWhiteSpace s = []"
    show "\<forall>c\<in>set (dropWhile isWhiteSpace s). isWhiteSpace c"
      unfolding e by simp
  qed
  also have "\<dots> \<longleftrightarrow> (\<forall>c\<in>set s. isWhiteSpace c)"
    by (simp add: dropWhile_eq_Nil_conv)
  finally show ?thesis .
qed

lemma trim_letters: "trim (replicate n 0x61) = replicate n 0x61"
proof -
  have "dropWhile isWhiteSpace (replicate n (0x61 :: 16 word)) = replicate n 0x61"
    by (cases n) (simp_all add: isWhiteSpace_def)
  then show ?thesis by (simp add: trim_def)
qed

lemma handleMarkerDrag_cases:
  "handleMarkerDrag fetch la lo st =
     (case fetch la lo of
        Rejected \<Rightarrow> st\<lparr>requests := requests st @ [ReverseRequest la lo],
                       selectedLocation := Some (keepCoordinates (selectedLocation st) la lo)\<rparr>
      | Response ok b \<Rightarrow>
          if ok then
            (case b of
               Json result \<Rightarrow> st\<lparr>requests := requests st @ [ReverseRequest la lo],
                                  selectedLocation := Some (fromCandidate result)\<rparr>
             | _ \<Rightarrow> st\<lparr>requests := requests st @ [ReverseRequest la lo],
                       selectedLocation := Some (keepCoordinates (selectedLocation st) la lo)\<rparr>)
          else st\<lparr>requests := requests st @ [ReverseRequest la lo]\<rparr>)"
  by (simp add: handleMarkerDrag_def handleMarkerDrag_try_def Let_def
           split: response.splits body.splits)

text \<open>
  Claim C4. For every query string that is empty or consists of white space only, the
  search returns an empty result list and makes no network call: \<^verbatim>\<open>performSearch\<close>
  clears the results, hides the list and sends no request, whatever the network would
  answer. (By \<open>trim_eq_Nil_iff\<close> the hypothesis says that every code unit of the query
  is white space.)
\<close>

theorem performSearch_blank_query:
  "trim query = [] \<Longrightarrow>
     performSearch fetch query st = st\<lparr>searchResults := [], showResults := False\<rparr>
     \<and> searchResults (performSearch fetch query st) = []
     \<and> requests (performSearch fetch query st) = requests st"
  by (simp add: performSearch_def)

theorem performSearch_blank_query_witness:
  "trim [0x20, 0x09, 0x3000] = []
   \<and> searchResults (performSearch search_strict [0x20, 0x09, 0x3000] (mounted None)) = []
   \<and> requests (performSearch search_strict [0x20, 0x09, 0x3000] (mounted None)) = []"
proof -
  have h: "trim [0x20, 0x09, 0x3000] = []" by (simp add: trim_def isWhiteSpace_def)
  show ?thesis
    using h performSearch_blank_query [OF h, of search_strict "mounted None"]
    by (simp add: mounted_def)
qed

text \<open>
  Claim C5, as amended. \<^verbatim>\<open>performSearch\<close> issues the lookup, with the trimmed text as
  the query, exactly when the trimmed text is not empty and the untrimmed query has at
  least 2 code units, whatever the length of the query; otherwise it sends nothing. It
  applies no limit of 120 characters and raises no InvalidInput itself: when the server
  refuses the request (a response that is not ok), the component shows
  "Search failed. Please try again." and an empty result list.
\<close>

theorem performSearch_lookup:
  "requests (performSearch fetch query st) =
     (if trim query \<noteq> [] \<and> 2 \<le> length query
      then requests st @ [SearchRequest (trim query)] else requests st)
   \<and> (trim query \<noteq> [] \<and> 2 \<le> length query \<and> fetch (trim query) = Response False b \<longrightarrow>
        error (performSearch fetch query st) = Some (js ''Search failed. Please try again.'')
        \<and> searchResults (performSearch fetch query st) = [])"
  by (auto simp: performSearch_def performSearch_try_def Let_def split: response.splits body.splits)

theorem performSearch_lookup_witness:
  "requests (performSearch search_strict (replicate 121 0x61) (mounted None))
     = [SearchRequest (replicate 121 0x61)]
   \<and> error (performSearch search_strict (replicate 121 0x61) (mounted None))
     = Some (js ''Search failed. Please try again.'')"
  using performSearch_lookup [of search_strict "replicate 121 0x61" "mounted None" Null]
  by (simp add: trim_letters search_strict_def mounted_def)

text \<open>
  Claim C5 as stated fails: the query \<^verbatim>\<open>"a"\<close> has trimmed length 1 and is not looked
  up, and a query of 121 letters is sent to the server like any other.
\<close>

theorem performSearch_single_character:
  "length (trim [0x61]) = 1
   \<and> requests (performSearch search_strict [0x61] (mounted None)) = []
   \<and> length (trim (replicate 121 0x61)) = 121
   \<and> requests (performSearch search_strict (replicate 121 0x61) (mounted None))
       = [SearchRequest (replicate 121 0x61)]"
  by (simp add: trim_letters performSearch_def performSearch_try_def search_strict_def mounted_def)
     (simp add: trim_def isWhiteSpace_def)

text \<open>
  Claim C10, as amended. When the reverse-geocode request completes with a response
  that is not ok, \<^verbatim>\<open>handleMarkerDrag\<close> leaves the selected location (and all other state)
  unchanged: the dragged coordinates are discarded. The dragged coordinates are put on
  the previous location only on the paths that raise inside the \<^verbatim>\<open>try\<close> block: when
  the fetch itself is rejected, or when the body of an ok response cannot be read or is
  \<^verbatim>\<open>null\<close>.
\<close>

theorem handleMarkerDrag_failure_paths:
  "(fetch la lo = Response False b \<longrightarrow>
      handleMarkerDrag fetch la lo st = st\<lparr>requests := requests st @ [ReverseRequest la lo]\<rparr>
      \<and> selectedLocation (handleMarkerDrag fetch la lo st) = selectedLocation st)
   \<and> (fst (handleMarkerDrag_try fetch la lo st) \<noteq> None \<longleftrightarrow>
        fetch la lo = Rejected \<or> fetch la lo = Response True Unreadable
        \<or> fetch la lo = Response True Null)
   \<and> (fst (handleMarkerDrag_try fetch la lo st) \<noteq> None \<longrightarrow>
        selectedLocation (handleMarkerDrag fetch la lo st)
          = Some (keepCoordinates (selectedLocation st) la lo))"
  by (auto simp: handleMarkerDrag_def handleMarkerDrag_try_def Let_def
           split: response.splits body.splits)

theorem handleMarkerDrag_failure_paths_witness:
  "handleMarkerDrag reverse_failing 10 20 (mounted (Some washington))
     = (mounted (Some washington))\<lparr>requests := [ReverseRequest 10 20]\<rparr>
   \<and> selectedLocation (handleMarkerDrag reverse_failing 10 20 (mounted (Some washington)))
     = Some washington"
  using handleMarkerDrag_failure_paths [of reverse_failing 10 20 Null "mounted (Some washington)"]
  by (simp add: reverse_failing_def mounted_def)

text \<open>
  Claim C10 as stated fails in its last part: an ok response whose body is \<^verbatim>\<open>null\<close>
  is not a rejected fetch, and the dragged coordinates are put on the previous location
  all the same.
\<close>

theorem handleMarkerDrag_null_body:
  "reverse_null 10 20 \<noteq> Rejected
   \<and> selectedLocation (handleMarkerDrag reverse_null 10 20 (mounted (Some washington)))
     = Some (washington\<lparr>lat := 10, lon := 20\<rparr>)"
  by (simp add: handleMarkerDrag_cases reverse_null_def mounted_def keepCoordinates_def)

section \<open>Properties of the confidence scorer\<close>

text \<open>Each literal denotes the double nearest to its decimal: it is within half a unit
  in the last place.\<close>

lemma literals_nearest:
  "\<bar>valof lit_0_7 - 7 / 10\<bar> \<le> 1 / 2 ^ 54"
  "\<bar>valof lit_0_1 - 1 / 10\<bar> \<le> 1 / 2 ^ 57"
  "\<bar>valof lit_0_95 - 95 / 100\<bar> \<le> 1 / 2 ^ 54"
  by (simp_all add: valof_def lit_0_7_def lit_0_1_def lit_0_95_def abs_if)

text \<open>The two sums the scorer can form: 0.7999999999999999 and 0.8999999999999999.\<close>

lemma fadd_once: "fadd lit_0_7 lit_0_1 = \<lparr>mant = 7205759403792793, expo = -53\<rparr>"
  by code_simp

lemma fadd_twice:
  "fadd \<lparr>mant = 7205759403792793, expo = -53\<rparr> lit_0_1
     = \<lparr>mant = 8106479329266892, expo = -53\<rparr>"
  by code_simp

lemma fmin_cap:
  "fmin lit_0_95 lit_0_7 = lit_0_7"
  "fmin lit_0_95 \<lparr>mant = 7205759403792793, expo = -53\<rparr> = \<lparr>mant = 7205759403792793, expo = -53\<rparr>"
  "fmin lit_0_95 \<lparr>mant = 8106479329266892, expo = -53\<rparr> = \<lparr>mant = 8106479329266892, expo = -53\<rparr>"
  by code_simp+

lemma calculate_custom_confidence_dict:
  assumes "dict_get data ''address'' (PDict []) = PDict d"
  shows "calculate_custom_confidence data =
           Inr (if truthy (dict_get d ''postcode'' PNone)
                then (if truthy (dict_get d ''house_number'' PNone)
                      then \<lparr>mant = 8106479329266892, expo = -53\<rparr>
                      else \<lparr>mant = 7205759403792793, expo = -53\<rparr>)
                else (if truthy (dict_get d ''house_number'' PNone)
                      then \<lparr>mant = 7205759403792793, expo = -53\<rparr>
                      else lit_0_7))"
  using assms
  by (simp add: calculate_custom_confidence_def py_get_def fadd_once fadd_twice fmin_cap)

text \<open>
  Claim C3, as amended. For every provider response whose \<^verbatim>\<open>address\<close> is absent or a
  dictionary, \<^verbatim>\<open>calculate_custom_confidence\<close> returns the double 0.7, increased by the
  double 0.1 once if a postal code is present and once if a house number is present,
  capped at 0.95: the result is 0.7, 0.7999999999999999 or 0.8999999999999999, within
  \<open>2 ^ -52\<close> of the decimal 0.70 + 0.10 + 0.10 of the fields present. The feature type
  adds nothing. The result is never negative and never exceeds 0.95.
\<close>

theorem calculate_custom_confidence_formula:
  "dict_get data ''address'' (PDict []) = PDict d \<Longrightarrow>
     (\<exists>x. calculate_custom_confidence data = Inr x
        \<and> x = (if truthy (dict_get d ''postcode'' PNone)
               then (if truthy (dict_get d ''house_number'' PNone)
                     then \<lparr>mant = 8106479329266892, expo = -53\<rparr>
                     else \<lparr>mant = 7205759403792793, expo = -53\<rparr>)
               else (if truthy (dict_get d ''house_number'' PNone)
                     then \<lparr>mant = 7205759403792793, expo = -53\<rparr>
                     else \<lparr>mant = 6305039478318694, expo = -53\<rparr>))
        \<and> \<bar>valof x - specified_confidence (truthy (dict_get d ''postcode'' PNone))
                         (truthy (dict_get d ''house_number'' PNone)) False\<bar> \<le> 1 / 2 ^ 52
        \<and> 0 \<le> valof x \<and> valof x \<le> 0.95)"
  by (simp add: calculate_custom_confidence_dict)
     (simp add: specified_confidence_def valof_def lit_0_7_def abs_if)

theorem calculate_custom_confidence_formula_witness:
  "calculate_custom_confidence
     [(''address'', PDict [(''postcode'', PStr ''20566''), (''house_number'', PStr ''2700'')])]
   = Inr \<lparr>mant = 8106479329266892, expo = -53\<rparr>
   \<and> valof \<lparr>mant = 8106479329266892, expo = -53\<rparr> < 0.9"
  using calculate_custom_confidence_formula
    [of "[(''address'', PDict [(''postcode'', PStr ''20566''), (''house_number'', PStr ''2700'')])]"
        "[(''postcode'', PStr ''20566''), (''house_number'', PStr ''2700'')]"]
  by (auto simp: dict_get_def valof_def)

text \<open>
  Claim C3 as stated fails: for a named attraction without postal code and house
  number the scorer returns the double 0.7, where the stated formula gives 0.75.
\<close>

theorem calculate_custom_confidence_attraction:
  "calculate_custom_confidence attraction = Inr lit_0_7
   \<and> valof lit_0_7 < 0.71
   \<and> specified_confidence False False True = 0.75"
  by (simp add: calculate_custom_confidence_def py_get_def dict_get_def attraction_def
        specified_confidence_def fmin_cap)
     (simp add: valof_def lit_0_7_def)

section \<open>Properties of the location resolution service\<close>

lemma Reverse_places: "places (snd (Reverse env now la lo st)) = places st"
  by (simp add: Reverse_def split: option.splits provided.splits)


lemma cross_validate_places: "places (snd (cross_validate env now inp st)) = places st"
proof (cases "in_city inp \<noteq> [] \<and> in_country inp \<noteq> []")
  case True
  obtain r st1 where R: "Reverse env now (in_lat inp) (in_lon inp) st = (r, st1)"
    by (cases "Reverse env now (in_lat inp) (in_lon inp) st")
  have "places st1 = places st" using Reverse_places [of env now "in_lat inp" "in_lon inp" st] R by simp
  with True R show ?thesis
    by (simp add: cross_validate_def split: sum.splits option.splits)
next
  case False
  then show ?thesis by (auto simp: cross_validate_def)
qed

lemma Save_in_bounds:
  assumes "in_bounds (in_lat inp) (in_lon inp)"
  shows "fst (Save env now sid inp st)
           = Inr (stamped now sid
                   (resolved sid inp
                      (if fst (cross_validate env now inp st)
                       then scored_confidence inp - MISMATCH_PENALTY else scored_confidence inp) now)
                   (places st))"
    and "places (snd (Save env now sid inp st))
           = (places st)(sid \<mapsto> stamped now sid
                   (resolved sid inp
                      (if fst (cross_validate env now inp st)
                       then scored_confidence inp - MISMATCH_PENALTY else scored_confidence inp) now)
                   (places st))"
  using assms cross_validate_places [of env now inp st]
  by (auto simp: Save_def Let_def Put_def split: prod.splits)

lemma stamped_fields:
  "r_lat (stamped now sid r store) = r_lat r"
  "r_lon (stamped now sid r store) = r_lon r"
  "r_city (stamped now sid r store) = r_city r"
  "r_country (stamped now sid r store) = r_country r"
  "r_confidence (stamped now sid r store) = r_confidence r"
  "r_source (stamped now sid r store) = r_source r"
  "r_place_name (stamped now sid r store) = r_place_name r"
  "r_admin (stamped now sid r store) = r_admin r"
  "r_country_code (stamped now sid r store) = r_country_code r"
  "r_story_id (stamped now sid r store) = r_story_id r"
  by (simp_all add: stamped_def)




lemma Reverse_store:
  "fst (Reverse env now la lo (st\<lparr>places := before\<rparr>)) = fst (Reverse env now la lo st)"
  by (simp add: Reverse_def split: option.splits provided.splits)

lemma cross_validate_store:
  "fst (cross_validate env now inp (st\<lparr>places := before\<rparr>)) = fst (cross_validate env now inp st)"
proof (cases "in_city inp \<noteq> [] \<and> in_country inp \<noteq> []")
  case True
  obtain r st1 where R: "Reverse env now (in_lat inp) (in_lon inp) st = (r, st1)"
    by (cases "Reverse env now (in_lat inp) (in_lon inp) st")
  obtain r2 st2 where R2:
    "Reverse env now (in_lat inp) (in_lon inp) (st\<lparr>places := before\<rparr>) = (r2, st2)"
    by (cases "Reverse env now (in_lat inp) (in_lon inp) (st\<lparr>places := before\<rparr>)")
  have "r2 = r"
    using Reverse_store [where env = env and now = now and la = "in_lat inp"
        and lo = "in_lon inp" and st = st and before = before] R R2 by simp
  with True R R2 show ?thesis
    by (simp add: cross_validate_def split: sum.splits option.splits)
next
  case False
  then show ?thesis by (auto simp: cross_validate_def)
qed



text \<open>
  Claim C8. A cache entry inserted at time \<open>T\<close> is treated as absent by every lookup
  at a time \<open>\<ge> T + TTL\<close>, for any time-to-live and for the default of 24 hours: the
  lookup returns nothing, and a reverse lookup that finds only such an entry goes to
  the provider.
\<close>

theorem cache_expiry:
  "(c k = Some e \<and> insertedAt e + ttl \<le> now \<longrightarrow> cache_get ttl now c k = None)
   \<and> (t + ttl \<le> now \<longrightarrow> cache_get ttl now (cache_put t c k v) k = None)
   \<and> (t + CACHE_TTL \<le> now \<longrightarrow> cache_get CACHE_TTL now (cache_put t c k v) k = None)
   \<and> (cache st (reverse_key la lo) = Some e' \<and> insertedAt e' + cache_ttl env \<le> now
        \<and> in_bounds la lo \<and> acquire_token env now \<longrightarrow>
         provider_calls (snd (Reverse env now la lo st)) = provider_calls st @ [(la, lo)])"
  by (simp add: cache_get_def cache_put_def Reverse_def split: provided.splits)

theorem cache_expiry_witness:
  "cache_get CACHE_TTL 86500 (cache_put 100 Map.empty (4885660 :: int, 235220 :: int) (Some paris))
     (4885660, 235220) = None
   \<and> cache_get CACHE_TTL 86499 (cache_put 100 Map.empty (4885660 :: int, 235220 :: int) (Some paris))
     (4885660, 235220) = Some (Some paris)"
  using cache_expiry [where c = "cache_put 100 Map.empty (4885660 :: int, 235220 :: int) (Some paris)"
     and k = "(4885660 :: int, 235220 :: int)" and e = "\<lparr>payload = Some paris, insertedAt = 100\<rparr>"
     and ttl = CACHE_TTL and now = 86500 and t = 100 and v = "Some paris"]
  by (simp add: CACHE_TTL_def cache_get_def cache_put_def)

text \<open>
  Claim C9. For every coordinate pair with latitude outside [-90, 90] or longitude
  outside [-180, 180], in particular for (91, 0) and (0, 181), the reverse operation
  fails with InvalidInput and makes no network call: the state, with its list of
  provider calls, is unchanged.
\<close>

theorem Reverse_out_of_range:
  "(la < -90 \<or> 90 < la \<or> lo < -180 \<or> 180 < lo \<longrightarrow>
      Reverse env now la lo st = (Inl InvalidInput, st)
      \<and> provider_calls (snd (Reverse env now la lo st)) = provider_calls st)
   \<and> Reverse env now 91 0 st = (Inl InvalidInput, st)
   \<and> Reverse env now 0 181 st = (Inl InvalidInput, st)"
  by (auto simp: Reverse_def in_bounds_def)

theorem Reverse_out_of_range_witness:
  "Reverse paris_env 100 (-90.5) 0 started = (Inl InvalidInput, started)
   \<and> provider_calls (snd (Reverse paris_env 100 (-90.5) 0 started)) = []"
  using Reverse_out_of_range [of "-90.5" 0 paris_env 100 started]
  by (simp add: started_def)

text \<open>
  Claim C7. For every story identifier and every save input with coordinates in range,
  the save succeeds and a Get for the same identifier right after it returns the
  stored record, whose latitude, longitude, city and country are the values saved; its
  confidence is the scored confidence of the input, or that lowered by 0.2. The Put
  replaces the prior record in full except \<^verbatim>\<open>createdAt\<close>: every other field of the
  stored record comes from the save, whatever the store held before, \<^verbatim>\<open>createdAt\<close>
  is kept from the prior record if there was one, and the records of other identifiers
  are untouched.
\<close>

theorem Save_then_Get:
  "in_bounds (in_lat inp) (in_lon inp) \<Longrightarrow>
     (\<exists>r st' conf. Save env now sid inp st = (Inr r, st')
        \<and> Get (places st') sid = Some r
        \<and> r_lat r = in_lat inp \<and> r_lon r = in_lon inp
        \<and> r_city r = in_city inp \<and> r_country r = in_country inp
        \<and> (conf = scored_confidence inp \<or> conf = scored_confidence inp - 0.2)
        \<and> r = (resolved sid inp conf now)
                \<lparr>r_created_at := (case Get (places st) sid of
                                    Some old \<Rightarrow> r_created_at old | None \<Rightarrow> now)\<rparr>
        \<and> (\<forall>before. \<exists>r2 st2.
              Save env now sid inp (st\<lparr>places := before\<rparr>) = (Inr r2, st2)
              \<and> r2\<lparr>r_created_at := r_created_at r\<rparr> = r)
        \<and> (\<forall>other. other \<noteq> sid \<longrightarrow> Get (places st') other = Get (places st) other))"
proof -
  assume b: "in_bounds (in_lat inp) (in_lon inp)"
  let ?conf = "if fst (cross_validate env now inp st)
               then scored_confidence inp - MISMATCH_PENALTY else scored_confidence inp"
  obtain res st' where S: "Save env now sid inp st = (res, st')"
    by (cases "Save env now sid inp st")
  have c: "?conf = scored_confidence inp \<or> ?conf = scored_confidence inp - 0.2"
    by (simp add: MISMATCH_PENALTY_def)
  have main: "res = Inr (stamped now sid (resolved sid inp ?conf now) (places st))
      \<and> places st' = (places st)(sid \<mapsto> stamped now sid (resolved sid inp ?conf now) (places st))"
    using Save_in_bounds [OF b, of env now sid st] S by simp
  have indep: "\<exists>r2 st2. Save env now sid inp (st\<lparr>places := before\<rparr>) = (Inr r2, st2)
      \<and> r2\<lparr>r_created_at := r_created_at (stamped now sid (resolved sid inp ?conf now) (places st))\<rparr>
          = stamped now sid (resolved sid inp ?conf now) (places st)" for before
  proof -
    obtain res2 st2 where S2: "Save env now sid inp (st\<lparr>places := before\<rparr>) = (res2, st2)"
      by (cases "Save env now sid inp (st\<lparr>places := before\<rparr>)")
    have cv: "fst (cross_validate env now inp (st\<lparr>places := before\<rparr>))
                = fst (cross_validate env now inp st)"
      by (rule cross_validate_store)
    show ?thesis
      using Save_in_bounds(1) [OF b, of env now sid "st\<lparr>places := before\<rparr>"] S2 cv
      by (simp add: stamped_def resolved_def)
  qed
  have "Save env now sid inp st = (Inr (stamped now sid (resolved sid inp ?conf now) (places st)), st')
      \<and> Get (places st') sid = Some (stamped now sid (resolved sid inp ?conf now) (places st))
      \<and> r_lat (stamped now sid (resolved sid inp ?conf now) (places st)) = in_lat inp
      \<and> r_lon (stamped now sid (resolved sid inp ?conf now) (places st)) = in_lon inp
      \<and> r_city (stamped now sid (resolved sid inp ?conf now) (places st)) = in_city inp
      \<and> r_country (stamped now sid (resolved sid inp ?conf now) (places st)) = in_country inp
      \<and> (?conf = scored_confidence inp \<or> ?conf = scored_confidence inp - 0.2)
      \<and> stamped now sid (resolved sid inp ?conf now) (places st)
          = (resolved sid inp ?conf now)
              \<lparr>r_created_at := (case Get (places st) sid of
                                  Some old \<Rightarrow> r_created_at old | None \<Rightarrow> now)\<rparr>
      \<and> (\<forall>other. other \<noteq> sid \<longrightarrow> Get (places st') other = Get (places st) other)"
    using S main c by (simp add: Get_def stamped_fields) (simp add: stamped_def resolved_def)
  with indep show ?thesis by blast
qed

theorem Save_then_Get_witness:
  "\<exists>r st'. Save paris_env 100 (js ''story1'') (Selection paris) revisited = (Inr r, st')
      \<and> Get (places st') (js ''story1'') = Some r
      \<and> r_lat r = 48.8566 \<and> r_lon r = 2.3522 \<and> r_city r = js ''Paris''
      \<and> r_country r = js ''France'' \<and> r_place_name r = js ''Paris''
      \<and> r_source r = search_selection \<and> r_confidence r = 0.8
      \<and> r_created_at r = 7 \<and> r_updated_at r = 100"
proof -
  have b: "in_bounds (in_lat (Selection paris)) (in_lon (Selection paris))"
    by (simp add: in_bounds_def paris_def)
  have R: "fst (Reverse paris_env 100 (in_lat (Selection paris)) (in_lon (Selection paris))
                 revisited) = Inr (Some paris)"
    by (simp add: Reverse_def in_bounds_def paris_env_def revisited_def cache_get_def
          paris_provider_def paris_def)
  have nm: "\<not> fst (cross_validate paris_env 100 (Selection paris) revisited)"
  proof -
    obtain r st1 where Rp: "Reverse paris_env 100 (in_lat (Selection paris))
                              (in_lon (Selection paris)) revisited = (r, st1)"
      by (cases "Reverse paris_env 100 (in_lat (Selection paris)) (in_lon (Selection paris))
                   revisited")
    with R have "r = Inr (Some paris)" by simp
    with Rp show ?thesis
      by (simp add: cross_validate_def paris_env_def same_country_def)
         (simp add: paris_def)
  qed
  have conf: "r_confidence r = 0.8"
    if "Save paris_env 100 (js ''story1'') (Selection paris) revisited = (Inr r, st')" for r st'
    using Save_in_bounds(1) [OF b, of paris_env 100 "js ''story1''" revisited] that nm
    by (auto simp: stamped_def resolved_def paris_def)
  show ?thesis
    using Save_then_Get [OF b, where env = paris_env and now = 100 and sid = "js ''story1''"
        and st = revisited] conf
    by (auto simp: paris_def resolved_def revisited_def Get_def earlier_def)
qed



end
